theory Spec2Isabelle
  imports Main
begin

section \<open>The gateway of main.go as a handler stack\<close>

text \<open>
  \<^verbatim>\<open>main.go\<close> builds one fiber application: a body limit, five middlewares mounted
  with \<^verbatim>\<open>app.Use\<close> (helmet, cors, logger, limiter, filesystem), the group \<^verbatim>\<open>/v1\<close>
  guarded by \<^verbatim>\<open>authMiddleware\<close> with its two forwarding routes, and the route
  \<^verbatim>\<open>GET /status\<close>. The model keeps that shape: a list of routes in registration
  order, a matcher, and a dispatcher that walks the list the way \<^verbatim>\<open>c.Next()\<close> does.
  The handlers configured in \<^verbatim>\<open>main.go\<close> are modelled with the configuration written
  there; what is left open by the source (the process environment and the embedded
  file tree \<^verbatim>\<open>public\<close>) is a parameter, the record \<open>deployment\<close>.
\<close>

subsection \<open>Requests, responses, deployment\<close>

datatype http_method = GET | HEAD | POST | PUT | DELETE | CONNECT | OPTIONS | TRACE | PATCH

text \<open>
  An inbound request. \<open>req_header\<close> is keyed by the header name as the source spells
  it (header names are matched without regard to case); \<open>req_ip\<close> is \<^verbatim>\<open>c.IP()\<close>;
  \<open>req_path\<close> is \<^verbatim>\<open>c.Path()\<close>, without the query string.
\<close>

record request =
  req_method :: http_method
  req_path :: string
  req_query :: string
  req_header :: "string \<rightharpoonup> string"
  req_body :: string
  req_ip :: string

text \<open>\<^verbatim>\<open>c.Get(key)\<close>: the header's value, or the empty string when it is absent.\<close>

definition Get_header :: "request \<Rightarrow> string \<Rightarrow> string" where
  "Get_header r k = (case req_header r k of None \<Rightarrow> [] | Some v \<Rightarrow> v)"

text \<open>What \<^verbatim>\<open>http.FS(dist).Open\<close> can answer for a slash-rooted name.\<close>

datatype open_result = ErrNotExist | ErrOther | IsDir | IsFile string

text \<open>
  The process environment read with \<^verbatim>\<open>os.Getenv\<close> (the empty string when a
  variable is unset) and the embedded tree \<^verbatim>\<open>dist = fs.Sub(uiFiles, "public")\<close>.
\<close>

record deployment =
  RIZ_SECRET_KEY :: string
  WA_SERVICE_URL :: string
  MAIL_SERVICE_URL :: string
  dist :: "string \<Rightarrow> open_result"

text \<open>
  The request that \<^verbatim>\<open>proxy.Do(c, target)\<close> sends, as far as it is modelled: the method
  and the body of the inbound request, and \<open>target\<close> as its URI, which replaces the
  inbound URI together with its query string. The headers of the forwarded request
  (the client rewrites some of them) are not part of the model.
\<close>

record forwarded =
  fwd_method :: http_method
  fwd_url :: string
  fwd_body :: string

text \<open>
  How a request ends: a response written by a handler (the status and the body it sets
  on the response), a call of the proxy forwarder (the upstream's answer becomes the
  response), or a \<^verbatim>\<open>fiber.Error\<close> handed to the default error handler, which answers
  with the error's status code. The body is the one the handler sets: to a \<^verbatim>\<open>HEAD\<close>
  request the server sends the status and the headers only, whatever body was set.
\<close>

datatype outcome = Respond nat string | ProxyDo forwarded | Error nat

datatype step = Next | Reply outcome

datatype stage =
  Helmet | Cors | Logger | Limiter | Filesystem | AuthMiddleware
  | ForwardWA | ForwardMail | StatusHandler

text \<open>The limiter's entry for one key: hits in the current window, and when it ends.\<close>

record item =
  currHits :: nat
  exp :: nat

type_synonym storage = "string \<rightharpoonup> item"

text \<open>
  The part of \<^verbatim>\<open>fiber.Ctx\<close> the handlers change: the response status code (200 until
  a handler sets it) and the limiter's storage, shared by all requests.
\<close>

record ctx =
  resp_status :: nat
  hits :: storage

subsection \<open>Constants of main.go\<close>

definition BodyLimit :: nat where
  "BodyLimit = 2 * 1024 * 1024"

definition limiter_Max :: nat where
  "limiter_Max = 50"

definition limiter_Expiration :: nat where
  "limiter_Expiration = 1 * 60"

definition filesystem_Index :: string where
  "filesystem_Index = ''/index.html''"

definition StatusOK :: nat where "StatusOK = 200"
definition StatusNoContent :: nat where "StatusNoContent = 204"
definition StatusUnauthorized :: nat where "StatusUnauthorized = 401"
definition StatusForbidden :: nat where "StatusForbidden = 403"
definition StatusNotFound :: nat where "StatusNotFound = 404"
definition StatusMethodNotAllowed :: nat where "StatusMethodNotAllowed = 405"
definition StatusRequestEntityTooLarge :: nat where "StatusRequestEntityTooLarge = 413"
definition StatusTooManyRequests :: nat where "StatusTooManyRequests = 429"
definition StatusInternalServerError :: nat where "StatusInternalServerError = 500"

text \<open>
  \<open>filesystem_Index\<close> is the configured \<^verbatim>\<open>Index: "index.html"\<close> as the middleware
  keeps it, with a leading slash. \<open>denied_json\<close> and \<open>status_json\<close> are the two bodies
  the source writes with \<^verbatim>\<open>c.JSON\<close>.
\<close>

definition denied_json :: string where
  \<open>denied_json = ''{"error":"Akses Ditolak. API Key tidak valid."}''\<close>

definition status_json :: string where
  \<open>status_json = ''{"status":"Guarding","uptime":"Active"}''\<close>

subsection \<open>Strings\<close>

definition HasPrefix :: "string \<Rightarrow> string \<Rightarrow> bool" where
  "HasPrefix s pre = (take (length pre) s = pre)"

definition TrimRight :: "string \<Rightarrow> char \<Rightarrow> string" where
  "TrimRight s c = rev (dropWhile (\<lambda>x. x = c) (rev s))"

definition ToLower :: "char \<Rightarrow> char" where
  "ToLower c =
     (case map_of (zip ''ABCDEFGHIJKLMNOPQRSTUVWXYZ'' ''abcdefghijklmnopqrstuvwxyz'') c of
        None \<Rightarrow> c
      | Some l \<Rightarrow> l)"

text \<open>
  The path fiber matches routes against: \<^verbatim>\<open>fiber.Config\<close> in \<^verbatim>\<open>main.go\<close> sets neither
  \<^verbatim>\<open>CaseSensitive\<close> nor \<^verbatim>\<open>StrictRouting\<close>, so the path is lower-cased and its trailing
  slashes are dropped.
\<close>

definition detectionPath :: "string \<Rightarrow> string" where
  "detectionPath p =
     (let q = map ToLower p
      in if 1 < length q \<and> last q = CHR ''/'' then TrimRight q (CHR ''/'') else q)"

subsection \<open>Routes and matching\<close>

record route =
  use :: bool
  methods :: "http_method list"
  path :: string
  handler :: stage

definition all_methods :: "http_method list" where
  "all_methods = [GET, HEAD, POST, PUT, DELETE, CONNECT, OPTIONS, TRACE, PATCH]"

definition app_Use :: "string \<Rightarrow> stage \<Rightarrow> route" where
  "app_Use p h = \<lparr>use = True, methods = all_methods, path = p, handler = h\<rparr>"

definition app_All :: "string \<Rightarrow> stage \<Rightarrow> route" where
  "app_All p h = \<lparr>use = False, methods = all_methods, path = p, handler = h\<rparr>"

definition app_Get :: "string \<Rightarrow> stage \<Rightarrow> route" where
  "app_Get p h = \<lparr>use = False, methods = [HEAD, GET], path = p, handler = h\<rparr>"

text \<open>
  \<open>match r det p\<close>: whether route \<open>r\<close> matches the detection path \<open>det\<close> of the
  path \<open>p\<close>, and the value of \<^verbatim>\<open>c.Params("*")\<close> if it does. A middleware mounted
  on \<^verbatim>\<open>/\<close> matches every path and one mounted on a prefix matches the paths that start
  with it; a route that ends in \<^verbatim>\<open>*\<close> matches its constant part with or without the
  final slash and binds the rest of the path; any other route matches its path only.
\<close>

definition match :: "route \<Rightarrow> string \<Rightarrow> string \<Rightarrow> string option" where
  "match r det p =
     (if use r \<and> path r = ''/'' then Some []
      else if path r \<noteq> [] \<and> last (path r) = CHR ''*'' then
        (let c = butlast (path r)
         in if det = butlast c then Some []
            else if HasPrefix det c
              then Some (take (length det - length c) (drop (length c) p))
            else None)
      else if use r then (if HasPrefix det (path r) then Some [] else None)
      else if det = path r then Some []
      else None)"

subsection \<open>The handlers\<close>

text \<open>\<^verbatim>\<open>helmet.New()\<close> and \<^verbatim>\<open>logger.New()\<close> add headers and a log line, and go on.\<close>

definition helmet :: "ctx \<Rightarrow> step \<times> ctx" where
  "helmet c = (Next, c)"

definition logger :: "ctx \<Rightarrow> step \<times> ctx" where
  "logger c = (Next, c)"

text \<open>
  \<^verbatim>\<open>cors.New()\<close> with its default configuration answers a preflight request (an
  \<^verbatim>\<open>OPTIONS\<close> request that carries \<^verbatim>\<open>Origin\<close> and \<^verbatim>\<open>Access-Control-Request-Method\<close>)
  with 204 and lets every other request through.
\<close>

definition preflight :: "request \<Rightarrow> bool" where
  "preflight r =
     (req_method r = OPTIONS \<and> Get_header r ''Origin'' \<noteq> []
      \<and> Get_header r ''Access-Control-Request-Method'' \<noteq> [])"

definition cors :: "request \<Rightarrow> ctx \<Rightarrow> step \<times> ctx" where
  "cors r c = (if preflight r then (Reply (Respond StatusNoContent []), c) else (Next, c))"

text \<open>
  \<^verbatim>\<open>limiter.New\<close> with \<^verbatim>\<open>Max: 50\<close>, \<^verbatim>\<open>Expiration: 1 * time.Minute\<close> and the key
  \<^verbatim>\<open>c.IP()\<close>: a fixed window per key. A key with no entry, or whose window has ended,
  starts a window at \<open>now\<close> with no hits; the hit is counted; the request is refused with
  429 when the count exceeds \<open>limiter_Max\<close>. \<open>now\<close> is the clock in seconds.
\<close>

definition hit :: "nat \<Rightarrow> item option \<Rightarrow> item" where
  "hit now e =
     (case e of
        None \<Rightarrow> \<lparr>currHits = 1, exp = now + limiter_Expiration\<rparr>
      | Some i \<Rightarrow>
          if exp i \<le> now then \<lparr>currHits = 1, exp = now + limiter_Expiration\<rparr>
          else i\<lparr>currHits := currHits i + 1\<rparr>)"

definition limiter :: "nat \<Rightarrow> request \<Rightarrow> ctx \<Rightarrow> step \<times> ctx" where
  "limiter now r c =
     (let key = req_ip r;
          e = hit now (hits c key);
          c' = c\<lparr>hits := (hits c)(key \<mapsto> e)\<rparr>
      in if limiter_Max < currHits e
         then (Reply (Respond StatusTooManyRequests ''Too Many Requests''), c')
         else (Next, c'))"

text \<open>
  \<^verbatim>\<open>filesystem.New\<close> with \<^verbatim>\<open>Root: http.FS(dist)\<close>, \<^verbatim>\<open>Index: "index.html"\<close>,
  \<^verbatim>\<open>Browse: false\<close> and no \<^verbatim>\<open>NotFoundFile\<close>, mounted on \<^verbatim>\<open>/\<close> (lines 66 to 70). The
  middleware serves \<^verbatim>\<open>GET\<close> and \<^verbatim>\<open>HEAD\<close> only and passes every other method on. The
  name it opens is the path with the mount prefix stripped and trailing slashes
  trimmed. For a name that does not exist, and with no \<^verbatim>\<open>NotFoundFile\<close> to open
  instead, it runs \<^verbatim>\<open>return c.Status(fiber.StatusNotFound).Next()\<close>: the status of the
  context becomes 404 and the next handler runs. A file is sent with the status 200
  (for \<^verbatim>\<open>HEAD\<close> without its body). A directory is answered with its index file if it
  has one; otherwise, browsing being off, with \<^verbatim>\<open>fiber.ErrForbidden\<close>. Any other error
  of \<^verbatim>\<open>Open\<close> is returned to the error handler.
\<close>

definition fs_name :: "string \<Rightarrow> string" where
  "fs_name p =
     (let p1 = (if HasPrefix p ''/'' then drop 1 p else p);
          p2 = (if HasPrefix p1 ''/'' then p1 else CHR ''/'' # p1)
      in if 1 < length p2 then TrimRight p2 (CHR ''/'') else p2)"

definition serve :: "request \<Rightarrow> string \<Rightarrow> outcome" where
  "serve r content =
     Respond StatusOK (if req_method r = GET then content else [])"

definition filesystem :: "deployment \<Rightarrow> request \<Rightarrow> ctx \<Rightarrow> step \<times> ctx" where
  "filesystem d r c =
     (if req_method r \<noteq> GET \<and> req_method r \<noteq> HEAD then (Next, c)
      else
        (let name = fs_name (req_path r)
         in case dist d name of
              ErrNotExist \<Rightarrow> (Next, c\<lparr>resp_status := StatusNotFound\<rparr>)
            | ErrOther \<Rightarrow> (Reply (Error StatusInternalServerError), c)
            | IsFile content \<Rightarrow> (Reply (serve r content), c)
            | IsDir \<Rightarrow>
                (case dist d (TrimRight name (CHR ''/'') @ filesystem_Index) of
                   IsFile content \<Rightarrow> (Reply (serve r content), c)
                 | _ \<Rightarrow> (Reply (Error StatusForbidden), c))))"

text \<open>\<^verbatim>\<open>authMiddleware\<close> (main.go, lines 103 to 114).\<close>

definition authMiddleware :: "deployment \<Rightarrow> request \<Rightarrow> ctx \<Rightarrow> step \<times> ctx" where
  "authMiddleware d r c =
     (let key = Get_header r ''X-RIZ-KEY'';
          secret = RIZ_SECRET_KEY d
      in if key = [] \<or> key \<noteq> secret
         then (Reply (Respond StatusUnauthorized denied_json), c)
         else (Next, c))"

text \<open>
  The two forwarding handlers (lines 76 to 87): the target is the base URL of the
  environment, a slash and the wildcard parameter; the query string is not part of it.
\<close>

definition proxy_Do :: "request \<Rightarrow> string \<Rightarrow> outcome" where
  "proxy_Do r target =
     ProxyDo \<lparr>fwd_method = req_method r, fwd_url = target, fwd_body = req_body r\<rparr>"

definition forwardWA :: "deployment \<Rightarrow> request \<Rightarrow> string \<Rightarrow> ctx \<Rightarrow> step \<times> ctx" where
  "forwardWA d r star c =
     (let target = WA_SERVICE_URL d @ ''/'' @ star in (Reply (proxy_Do r target), c))"

definition forwardMail :: "deployment \<Rightarrow> request \<Rightarrow> string \<Rightarrow> ctx \<Rightarrow> step \<times> ctx" where
  "forwardMail d r star c =
     (let target = MAIL_SERVICE_URL d @ ''/'' @ star in (Reply (proxy_Do r target), c))"

text \<open>
  The health check (lines 90 to 92): \<^verbatim>\<open>c.JSON\<close> sets the body and the content type
  of the response and leaves the status code of the context as it is. (For \<^verbatim>\<open>HEAD\<close> the
  body so set is not sent.)
\<close>

definition statusHandler :: "ctx \<Rightarrow> step \<times> ctx" where
  "statusHandler c = (Reply (Respond (resp_status c) status_json), c)"

definition run_handler ::
  "stage \<Rightarrow> deployment \<Rightarrow> nat \<Rightarrow> request \<Rightarrow> string \<Rightarrow> ctx \<Rightarrow> step \<times> ctx" where
  "run_handler h d now r star c =
     (case h of
        Helmet \<Rightarrow> helmet c
      | Cors \<Rightarrow> cors r c
      | Logger \<Rightarrow> logger c
      | Limiter \<Rightarrow> limiter now r c
      | Filesystem \<Rightarrow> filesystem d r c
      | AuthMiddleware \<Rightarrow> authMiddleware d r c
      | ForwardWA \<Rightarrow> forwardWA d r star c
      | ForwardMail \<Rightarrow> forwardMail d r star c
      | StatusHandler \<Rightarrow> statusHandler c)"

subsection \<open>The application\<close>

text \<open>The routes in the order \<^verbatim>\<open>main\<close> registers them (lines 47 to 92).\<close>

definition app :: "route list" where
  "app =
     [app_Use ''/'' Helmet, app_Use ''/'' Cors, app_Use ''/'' Logger, app_Use ''/'' Limiter,
      app_Use ''/'' Filesystem,
      app_Use ''/v1'' AuthMiddleware,
      app_All ''/v1/wa/*'' ForwardWA,
      app_All ''/v1/mail/*'' ForwardMail,
      app_Get ''/status'' StatusHandler]"

text \<open>
  When the stack is exhausted fiber answers 405 if no route matched but a route of
  another method matches the path, and 404 otherwise.
\<close>

definition methodExist :: "route list \<Rightarrow> request \<Rightarrow> bool" where
  "methodExist rs r =
     list_ex (\<lambda>x. \<not> use x \<and> req_method r \<notin> set (methods x)
        \<and> match x (detectionPath (req_path r)) (req_path r) \<noteq> None) rs"

text \<open>
  \<open>next_route\<close> is \<^verbatim>\<open>c.Next()\<close>: the first remaining route of the request's method
  that matches runs; its handler answers or goes on. The result lists the handlers that
  ran, in order. \<open>matched\<close> records whether a route that is not a middleware has matched.
\<close>

fun next_route ::
  "route list \<Rightarrow> deployment \<Rightarrow> nat \<Rightarrow> request \<Rightarrow> route list \<Rightarrow> bool \<Rightarrow> ctx
     \<Rightarrow> stage list \<times> outcome \<times> ctx" where
  "next_route rs0 d now r [] matched c =
     ([], Error (if \<not> matched \<and> methodExist rs0 r then StatusMethodNotAllowed
                 else StatusNotFound), c)"
| "next_route rs0 d now r (x # rs) matched c =
     (if req_method r \<notin> set (methods x) then next_route rs0 d now r rs matched c
      else
        (case match x (detectionPath (req_path r)) (req_path r) of
           None \<Rightarrow> next_route rs0 d now r rs matched c
         | Some star \<Rightarrow>
             (case run_handler (handler x) d now r star c of
                (Reply out, c') \<Rightarrow> ([handler x], out, c')
              | (Next, c') \<Rightarrow>
                  (case next_route rs0 d now r rs (matched \<or> \<not> use x) c' of
                     (tr, out, c'') \<Rightarrow> (handler x # tr, out, c'')))))"

text \<open>
  One request through the gateway at time \<open>now\<close>, from the limiter storage \<open>st\<close>: the
  handlers that ran, the outcome, and the storage afterwards. A body longer than
  \<open>BodyLimit\<close> is refused with 413 before any handler runs.
\<close>

definition gateway ::
  "deployment \<Rightarrow> nat \<Rightarrow> request \<Rightarrow> storage \<Rightarrow> stage list \<times> outcome \<times> storage" where
  "gateway d now r st =
     (if BodyLimit < length (req_body r)
      then ([], Error StatusRequestEntityTooLarge, st)
      else
        (case next_route app d now r app False \<lparr>resp_status = StatusOK, hits = st\<rparr> of
           (tr, out, c) \<Rightarrow> (tr, out, hits c)))"

definition trace_of :: "stage list \<times> outcome \<times> storage \<Rightarrow> stage list" where
  "trace_of x = fst x"

definition outcome_of :: "stage list \<times> outcome \<times> storage \<Rightarrow> outcome" where
  "outcome_of x = fst (snd x)"

definition storage_of :: "stage list \<times> outcome \<times> storage \<Rightarrow> storage" where
  "storage_of x = snd (snd x)"

text \<open>The routes registered after the filesystem middleware (lines 73 to 92).\<close>

definition api :: "route list" where
  "api = drop 5 app"

text \<open>
  The server handles the requests it receives one after another (the limiter takes a
  lock around its storage): \<open>listen\<close> runs a list of requests, each with its arrival
  time, and returns what each of them got.
\<close>

fun listen ::
  "deployment \<Rightarrow> (nat \<times> request) list \<Rightarrow> storage \<Rightarrow> (stage list \<times> outcome) list" where
  "listen d [] st = []"
| "listen d ((now, r) # evs) st =
     (case gateway d now r st of (tr, out, st') \<Rightarrow> (tr, out) # listen d evs st')"

subsection \<open>Where a request stands in the stack\<close>

text \<open>
  The conditions under which each middleware passes a request on, read off the
  handlers above: the limiter admits a request whose hit stays within \<open>limiter_Max\<close>;
  the filesystem handler passes on every request that is not a \<^verbatim>\<open>GET\<close> or \<^verbatim>\<open>HEAD\<close>
  and every name the tree does not have; the group \<^verbatim>\<open>/v1\<close> covers the paths its
  middleware matches.
\<close>

definition admitted :: "nat \<Rightarrow> request \<Rightarrow> storage \<Rightarrow> bool" where
  "admitted now r st = (currHits (hit now (st (req_ip r))) \<le> limiter_Max)"

definition static_miss :: "deployment \<Rightarrow> request \<Rightarrow> bool" where
  "static_miss d r =
     ((req_method r \<noteq> GET \<and> req_method r \<noteq> HEAD)
      \<or> dist d (fs_name (req_path r)) = ErrNotExist)"

definition under_v1 :: "request \<Rightarrow> bool" where
  "under_v1 r = HasPrefix (detectionPath (req_path r)) ''/v1''"

definition valid_key :: "deployment \<Rightarrow> request \<Rightarrow> bool" where
  "valid_key d r =
     (Get_header r ''X-RIZ-KEY'' \<noteq> [] \<and> Get_header r ''X-RIZ-KEY'' = RIZ_SECRET_KEY d)"

text \<open>
  \<open>Params x r\<close> is \<^verbatim>\<open>c.Params("*")\<close> for route \<open>x\<close> and request \<open>r\<close>, when the
  route matches. A request reaches the limiter when its body is within the limit and
  the CORS middleware does not answer it; \<open>requests_of k evs\<close> counts the requests of
  client \<open>k\<close> among \<open>evs\<close> that do.
\<close>

definition Params :: "route \<Rightarrow> request \<Rightarrow> string option" where
  "Params x r = match x (detectionPath (req_path r)) (req_path r)"

definition reaches_limiter :: "request \<Rightarrow> bool" where
  "reaches_limiter r = (length (req_body r) \<le> BodyLimit \<and> \<not> preflight r)"

definition requests_of :: "string \<Rightarrow> (nat \<times> request) list \<Rightarrow> nat" where
  "requests_of k evs =
     length (filter (\<lambda>(t, r). req_ip r = k \<and> reaches_limiter r) evs)"

text \<open>The query string of a URL: what follows its first question mark.\<close>

definition url_query :: "string \<Rightarrow> string" where
  "url_query u = drop 1 (dropWhile (\<lambda>x. x \<noteq> CHR ''?'') u)"

subsection \<open>A sample deployment\<close>

text \<open>
  A tree with the index document only, and sample requests from one client. They are
  the concrete inputs of the examples below.
\<close>

definition sample_dist :: "string \<Rightarrow> open_result" where
  "sample_dist n =
     (if n = ''/'' then IsDir
      else if n = ''/index.html'' then IsFile ''<html></html>''
      else ErrNotExist)"

definition sample :: deployment where
  "sample = \<lparr>RIZ_SECRET_KEY = ''s3cret'', WA_SERVICE_URL = ''http://wa:3000'',
     MAIL_SERVICE_URL = ''http://mail:3001'', dist = sample_dist\<rparr>"

definition sample_request :: "http_method \<Rightarrow> string \<Rightarrow> string \<Rightarrow> request" where
  "sample_request m p k =
     \<lparr>req_method = m, req_path = p, req_query = ''x=1'',
      req_header = (if k = [] then Map.empty else [''X-RIZ-KEY'' \<mapsto> k]),
      req_body = ''hello'', req_ip = ''10.0.0.1''\<rparr>"

text \<open>
  A second client and a preflight request of the first client; a burst of 51 requests
  of the first client that reach the limiter, with a request of the second client and a
  preflight of the first in between; 50 requests of the first client followed by a
  preflight of its own; 51 requests without a key to the WhatsApp route; and a tree
  that has files named like routes.
\<close>

definition other_client :: request where
  "other_client = (sample_request GET ''/'' [])\<lparr>req_ip := ''10.0.0.2''\<rparr>"

definition preflight_request :: request where
  "preflight_request = (sample_request OPTIONS ''/v1/wa/send'' [])
     \<lparr>req_header := [''Origin'' \<mapsto> ''http://ui.example'',
        ''Access-Control-Request-Method'' \<mapsto> ''POST'']\<rparr>"

definition burst :: "(nat \<times> request) list" where
  "burst = (0, sample_request GET ''/'' []) # (1, other_client) # (1, preflight_request)
     # replicate 50 (2, sample_request GET ''/'' [])"

definition polite :: "(nat \<times> request) list" where
  "polite = replicate 50 (0, sample_request GET ''/'' []) @ [(1, preflight_request)]"

definition flood :: "(nat \<times> request) list" where
  "flood = (0, sample_request POST ''/v1/wa/send'' [])
     # replicate 50 (0, sample_request POST ''/v1/wa/send'' [])"

definition shadow :: deployment where
  "shadow = sample\<lparr>dist := (\<lambda>n. if n = ''/v1/wa/ping'' \<or> n = ''/status''
      then IsFile ''pong''
      else if n = ''/v1'' \<or> n = ''/v1/wa'' then IsDir
      else sample_dist n)\<rparr>"

section \<open>The stack, stage by stage\<close>

declare next_route.simps(2) [simp del]

lemmas status_codes =
  StatusOK_def StatusNoContent_def StatusUnauthorized_def StatusForbidden_def StatusNotFound_def
  StatusMethodNotAllowed_def StatusRequestEntityTooLarge_def StatusTooManyRequests_def
  StatusInternalServerError_def

lemma in_all_methods: "m \<in> set all_methods"
  by (cases m) (simp_all add: all_methods_def)

lemma api_routes:
  "api = [app_Use ''/v1'' AuthMiddleware, app_All ''/v1/wa/*'' ForwardWA,
      app_All ''/v1/mail/*'' ForwardMail, app_Get ''/status'' StatusHandler]"
  by (simp add: api_def app_def)

text \<open>A middleware mounted on the root runs for every request.\<close>

lemma next_route_use_root:
  "next_route rs0 d now r (app_Use ''/'' h # rs) matched c =
     (case run_handler h d now r [] c of
        (Reply out, c') \<Rightarrow> ([h], out, c')
      | (Next, c') \<Rightarrow>
          (case next_route rs0 d now r rs matched c' of
             (tr, out, c'') \<Rightarrow> (h # tr, out, c'')))"
  by (simp add: next_route.simps(2) app_Use_def match_def in_all_methods
      split: prod.splits step.splits)

lemma gateway_too_large:
  "BodyLimit < length (req_body r) \<Longrightarrow>
   gateway d now r st = ([], Error StatusRequestEntityTooLarge, st)"
  by (simp add: gateway_def)

lemma gateway_preflight:
  "length (req_body r) \<le> BodyLimit \<Longrightarrow> preflight r \<Longrightarrow>
   gateway d now r st = ([Helmet, Cors], Respond StatusNoContent [], st)"
  by (simp add: gateway_def app_def next_route_use_root run_handler_def helmet_def cors_def)

lemma gateway_rejected:
  "length (req_body r) \<le> BodyLimit \<Longrightarrow> \<not> preflight r \<Longrightarrow> \<not> admitted now r st \<Longrightarrow>
   gateway d now r st =
     ([Helmet, Cors, Logger, Limiter], Respond StatusTooManyRequests ''Too Many Requests'',
      st(req_ip r \<mapsto> hit now (st (req_ip r))))"
  by (simp add: gateway_def app_def next_route_use_root run_handler_def helmet_def cors_def
      logger_def limiter_def admitted_def Let_def)

lemma gateway_admitted:
  "length (req_body r) \<le> BodyLimit \<Longrightarrow> \<not> preflight r \<Longrightarrow> admitted now r st \<Longrightarrow>
   gateway d now r st =
     (case filesystem d r
         \<lparr>resp_status = StatusOK, hits = st(req_ip r \<mapsto> hit now (st (req_ip r)))\<rparr> of
        (Reply out, c') \<Rightarrow> ([Helmet, Cors, Logger, Limiter, Filesystem], out, hits c')
      | (Next, c') \<Rightarrow>
          (case next_route app d now r api False c' of
             (tr, out, c'') \<Rightarrow>
               ([Helmet, Cors, Logger, Limiter, Filesystem] @ tr, out, hits c'')))"
  by (simp add: gateway_def app_def api_def next_route_use_root run_handler_def helmet_def
      cors_def logger_def limiter_def admitted_def Let_def split: prod.splits step.splits)

subsection \<open>Matching the registered routes\<close>

lemma match_auth:
  "match (app_Use ''/v1'' AuthMiddleware) dp p = (if HasPrefix dp ''/v1'' then Some [] else None)"
  by (simp add: match_def app_Use_def)

lemma match_wa:
  "match (app_All ''/v1/wa/*'' ForwardWA) dp p =
     (if dp = ''/v1/wa'' then Some []
      else if HasPrefix dp ''/v1/wa/'' then Some (take (length dp - length ''/v1/wa/'') (drop (length ''/v1/wa/'') p))
      else None)"
  by (simp add: match_def app_All_def)

lemma match_mail:
  "match (app_All ''/v1/mail/*'' ForwardMail) dp p =
     (if dp = ''/v1/mail'' then Some []
      else if HasPrefix dp ''/v1/mail/'' then Some (take (length dp - length ''/v1/mail/'') (drop (length ''/v1/mail/'') p))
      else None)"
  by (simp add: match_def app_All_def)

lemma match_status:
  "match (app_Get ''/status'' StatusHandler) dp p = (if dp = ''/status'' then Some [] else None)"
  by (simp add: match_def app_Get_def)

lemma HasPrefix_shorter:
  "HasPrefix s (a @ b) \<Longrightarrow> HasPrefix s a"
  unfolding HasPrefix_def
  by (metis append_eq_conv_conj append_take_drop_id append.assoc)

lemma wa_under_v1: "HasPrefix dp ''/v1/wa/'' \<Longrightarrow> HasPrefix dp ''/v1''"
  using HasPrefix_shorter [of dp "''/v1''" "''/wa/''"] by simp

lemma mail_under_v1: "HasPrefix dp ''/v1/mail/'' \<Longrightarrow> HasPrefix dp ''/v1''"
  using HasPrefix_shorter [of dp "''/v1''" "''/mail/''"] by simp

lemma wa_not_mail: "HasPrefix dp ''/v1/wa/'' \<Longrightarrow> \<not> HasPrefix dp ''/v1/mail/''"
proof
  assume a: "HasPrefix dp ''/v1/wa/''" and b: "HasPrefix dp ''/v1/mail/''"
  have "HasPrefix dp ''/v1/w''" using HasPrefix_shorter [of dp "''/v1/w''" "''a/''"] a by simp
  moreover have "HasPrefix dp ''/v1/m''" using HasPrefix_shorter [of dp "''/v1/m''" "''ail/''"] b by simp
  ultimately show False by (simp add: HasPrefix_def)
qed

lemma wa_exact_under_v1: "HasPrefix ''/v1/wa'' ''/v1''" "HasPrefix ''/v1/mail'' ''/v1''"
  "\<not> HasPrefix ''/v1/wa'' ''/v1/mail/''" "\<not> HasPrefix ''/v1/mail'' ''/v1/wa/''"
  "\<not> HasPrefix ''/status'' ''/v1''"
  by (simp_all add: HasPrefix_def)

lemma status_not_v1: "HasPrefix dp ''/v1'' \<Longrightarrow> dp \<noteq> ''/status''"
  by (auto simp: HasPrefix_def)

lemma route_sel:
  "use (app_Use p h) = True" "methods (app_Use p h) = all_methods" "handler (app_Use p h) = h"
  "use (app_All p h) = False" "methods (app_All p h) = all_methods" "handler (app_All p h) = h"
  "use (app_Get p h) = False" "methods (app_Get p h) = [HEAD, GET]" "handler (app_Get p h) = h"
  by (simp_all add: app_Use_def app_All_def app_Get_def)

lemma next_route_api:
  "next_route rs0 d now r api m c =
     (if under_v1 r \<and> \<not> valid_key d r
        then ([AuthMiddleware], Respond StatusUnauthorized denied_json, c)
      else
        (case Params (app_All ''/v1/wa/*'' ForwardWA) r of
           Some star \<Rightarrow> ([AuthMiddleware, ForwardWA], proxy_Do r (WA_SERVICE_URL d @ ''/'' @ star), c)
         | None \<Rightarrow>
             (case Params (app_All ''/v1/mail/*'' ForwardMail) r of
                Some star \<Rightarrow>
                  ([AuthMiddleware, ForwardMail], proxy_Do r (MAIL_SERVICE_URL d @ ''/'' @ star), c)
              | None \<Rightarrow>
                  (if (req_method r = GET \<or> req_method r = HEAD)
                      \<and> detectionPath (req_path r) = ''/status''
                   then ([StatusHandler], Respond (resp_status c) status_json, c)
                   else ((if under_v1 r then [AuthMiddleware] else []),
                     Error (if \<not> m \<and> methodExist rs0 r then StatusMethodNotAllowed
                            else StatusNotFound), c)))))"
proof (cases "under_v1 r")
  case True
  then have dp: "HasPrefix (detectionPath (req_path r)) ''/v1''"
    by (simp add: under_v1_def)
  show ?thesis
  proof (cases "valid_key d r")
    case False
    with True dp show ?thesis
      by (simp add: api_routes next_route.simps(2) match_auth in_all_methods run_handler_def
          authMiddleware_def valid_key_def Let_def route_sel)
  next
    case True
    with dp show ?thesis
      by (simp add: api_routes next_route.simps(2) Params_def in_all_methods run_handler_def
          authMiddleware_def valid_key_def Let_def under_v1_def forwardWA_def forwardMail_def
          statusHandler_def status_not_v1 route_sel match_auth match_wa match_mail match_status
          wa_under_v1 mail_under_v1 wa_not_mail wa_exact_under_v1)
  qed
next
  case False
  then have dp: "\<not> HasPrefix (detectionPath (req_path r)) ''/v1''"
    by (simp add: under_v1_def)
  then have "\<not> HasPrefix (detectionPath (req_path r)) ''/v1/wa/''"
    "\<not> HasPrefix (detectionPath (req_path r)) ''/v1/mail/''"
    "detectionPath (req_path r) \<noteq> ''/v1/wa''" "detectionPath (req_path r) \<noteq> ''/v1/mail''"
    using wa_under_v1 mail_under_v1 wa_exact_under_v1 by auto
  with False dp show ?thesis
    by (simp add: api_routes next_route.simps(2) Params_def in_all_methods run_handler_def
        statusHandler_def route_sel match_auth match_wa match_mail match_status)
qed

lemma methodExist_app:
  "methodExist app r =
     (detectionPath (req_path r) = ''/status'' \<and> req_method r \<noteq> GET \<and> req_method r \<noteq> HEAD)"
  by (auto simp add: methodExist_def app_def route_sel in_all_methods match_status)

lemma filesystem_miss:
  "static_miss d r \<Longrightarrow>
   filesystem d r c =
     (Next, if req_method r = GET \<or> req_method r = HEAD
            then c\<lparr>resp_status := StatusNotFound\<rparr> else c)"
  by (auto simp add: filesystem_def static_miss_def Let_def)

lemma filesystem_file:
  "req_method r = GET \<or> req_method r = HEAD \<Longrightarrow>
   dist d (fs_name (req_path r)) = IsFile content \<Longrightarrow>
   filesystem d r c = (Reply (serve r content), c)"
  by (auto simp add: filesystem_def Let_def)

lemma filesystem_hits: "hits (snd (filesystem d r c)) = hits c"
  by (simp add: filesystem_def Let_def split: open_result.splits)

lemma next_route_api_hits: "hits (snd (snd (next_route rs0 d now r api m c))) = hits c"
  by (simp add: next_route_api split: option.splits)

subsection \<open>The filesystem handler and the whole gateway\<close>

lemma filesystem_reply_not_proxy:
  "filesystem d r c = (Reply out, c') \<Longrightarrow> (\<forall>fw. out \<noteq> ProxyDo fw) \<and> c' = c"
  by (auto simp add: filesystem_def Let_def serve_def split: if_splits open_result.splits)

lemma filesystem_next:
  "filesystem d r c = (Next, c') \<Longrightarrow>
   static_miss d r \<and> c' = (if req_method r = GET \<or> req_method r = HEAD
            then c\<lparr>resp_status := StatusNotFound\<rparr> else c)"
  by (auto simp add: filesystem_def Let_def static_miss_def split: if_splits open_result.splits)

text \<open>Every way a request can go through the gateway.\<close>

lemma gateway_cases:
  "gateway d now r st =
     (if BodyLimit < length (req_body r) then ([], Error StatusRequestEntityTooLarge, st)
      else if preflight r then ([Helmet, Cors], Respond StatusNoContent [], st)
      else if \<not> admitted now r st
        then ([Helmet, Cors, Logger, Limiter],
              Respond StatusTooManyRequests ''Too Many Requests'',
              st(req_ip r \<mapsto> hit now (st (req_ip r))))
      else
        (case filesystem d r
            \<lparr>resp_status = StatusOK, hits = st(req_ip r \<mapsto> hit now (st (req_ip r)))\<rparr> of
           (Reply out, c') \<Rightarrow>
             ([Helmet, Cors, Logger, Limiter, Filesystem], out,
              st(req_ip r \<mapsto> hit now (st (req_ip r))))
         | (Next, c') \<Rightarrow>
             (case next_route app d now r api False c' of
                (tr, out, c'') \<Rightarrow>
                  ([Helmet, Cors, Logger, Limiter, Filesystem] @ tr, out,
                   st(req_ip r \<mapsto> hit now (st (req_ip r)))))))"
proof -
  have h: "hits (snd (snd (next_route app d now r api False c'))) =
      st(req_ip r \<mapsto> hit now (st (req_ip r)))"
    if "filesystem d r \<lparr>resp_status = StatusOK,
        hits = st(req_ip r \<mapsto> hit now (st (req_ip r)))\<rparr> = (Next, c')" for c'
    using filesystem_next [OF that] by (simp add: next_route_api_hits)
  have k: "hits c' = st(req_ip r \<mapsto> hit now (st (req_ip r)))"
    if "filesystem d r \<lparr>resp_status = StatusOK,
        hits = st(req_ip r \<mapsto> hit now (st (req_ip r)))\<rparr> = (Reply out, c')" for c' out
    using filesystem_reply_not_proxy [OF that] by simp
  show ?thesis
    using h k
    by (auto simp add: gateway_too_large gateway_preflight gateway_rejected gateway_admitted
        split: prod.splits step.splits)
qed

lemma gateway_api:
  assumes "length (req_body r) \<le> BodyLimit" "\<not> preflight r" "admitted now r st"
    "static_miss d r"
  shows "gateway d now r st =
     (case next_route app d now r api False
         \<lparr>resp_status = (if req_method r = GET \<or> req_method r = HEAD then StatusNotFound
                           else StatusOK),
          hits = st(req_ip r \<mapsto> hit now (st (req_ip r)))\<rparr> of
        (tr, out, c'') \<Rightarrow>
          ([Helmet, Cors, Logger, Limiter, Filesystem] @ tr, out,
           st(req_ip r \<mapsto> hit now (st (req_ip r)))))"
  using assms by (simp add: gateway_cases filesystem_miss)

lemma gateway_no_forward:
  assumes "\<not> valid_key d r"
  shows "ForwardWA \<notin> set (trace_of (gateway d now r st))
    \<and> ForwardMail \<notin> set (trace_of (gateway d now r st))
    \<and> (\<forall>fw. outcome_of (gateway d now r st) \<noteq> ProxyDo fw)"
proof -
  have a: "under_v1 r" if "Params (app_All ''/v1/wa/*'' ForwardWA) r = Some s" for s
    using that wa_under_v1 wa_exact_under_v1
    by (auto simp add: Params_def match_wa under_v1_def split: if_splits)
  have b: "under_v1 r" if "Params (app_All ''/v1/mail/*'' ForwardMail) r = Some s" for s
    using that mail_under_v1 wa_exact_under_v1
    by (auto simp add: Params_def match_mail under_v1_def split: if_splits)
  show ?thesis
    using assms a b
    by (auto simp add: gateway_cases trace_of_def outcome_of_def next_route_api
        dest: filesystem_reply_not_proxy
        split: prod.splits step.splits option.splits if_splits)
qed

text \<open>
  The status handler answers with the status the context has when it runs: after a miss
  of the filesystem handler on a \<^verbatim>\<open>GET\<close> or \<^verbatim>\<open>HEAD\<close> request that is 404.
\<close>

lemma status_after_miss:
  assumes "req_method r = GET \<or> req_method r = HEAD"
    and "detectionPath (req_path r) = ''/status''"
    and "dist d (fs_name (req_path r)) = ErrNotExist"
    and "length (req_body r) \<le> BodyLimit"
    and "admitted now r st"
  shows "gateway d now r st =
     ([Helmet, Cors, Logger, Limiter, Filesystem, StatusHandler],
      Respond StatusNotFound status_json, st(req_ip r \<mapsto> hit now (st (req_ip r))))"
proof -
  from assms(1) have np: "\<not> preflight r"
    by (auto simp add: preflight_def)
  have nv: "\<not> under_v1 r"
    using assms(2) by (simp add: under_v1_def HasPrefix_def)
  have a: "Params (app_All ''/v1/wa/*'' ForwardWA) r = None"
    "Params (app_All ''/v1/mail/*'' ForwardMail) r = None"
    using assms(2) by (simp_all add: Params_def match_wa match_mail HasPrefix_def)
  have m: "static_miss d r"
    using assms(3) by (simp add: static_miss_def)
  from assms np nv a m show ?thesis
    by (simp add: gateway_api next_route_api)
qed

text \<open>A call of the proxy comes from one of the two forwarding routes.\<close>

lemma proxy_only_by_route:
  assumes "outcome_of (gateway d now r st) = ProxyDo fw"
  shows "(\<exists>star. Params (app_All ''/v1/wa/*'' ForwardWA) r = Some star
        \<and> ProxyDo fw = proxy_Do r (WA_SERVICE_URL d @ ''/'' @ star))
    \<or> (Params (app_All ''/v1/wa/*'' ForwardWA) r = None
        \<and> (\<exists>star. Params (app_All ''/v1/mail/*'' ForwardMail) r = Some star
          \<and> ProxyDo fw = proxy_Do r (MAIL_SERVICE_URL d @ ''/'' @ star)))"
  using assms
  by (auto simp add: gateway_cases outcome_of_def next_route_api
      dest: filesystem_reply_not_proxy
      split: prod.splits step.splits option.splits if_splits)

subsection \<open>The limiter over a sequence of requests\<close>

lemma filesystem_reply_not_429:
  "filesystem d r c = (Reply out, c') \<Longrightarrow> out \<noteq> Respond StatusTooManyRequests b"
  by (auto simp add: filesystem_def Let_def serve_def status_codes
      split: if_splits open_result.splits)

lemma api_not_429:
  "resp_status c \<noteq> StatusTooManyRequests \<Longrightarrow>
   fst (snd (next_route rs0 d now r api m c)) \<noteq> Respond StatusTooManyRequests b"
  by (auto simp add: next_route_api proxy_Do_def status_codes split: option.splits)

lemma gateway_storage:
  "length (req_body r) \<le> BodyLimit \<Longrightarrow> \<not> preflight r \<Longrightarrow>
   storage_of (gateway d now r st) = st(req_ip r \<mapsto> hit now (st (req_ip r)))"
  by (simp add: gateway_cases storage_of_def split: prod.splits step.splits)

lemma gateway_429:
  assumes "length (req_body r) \<le> BodyLimit" "\<not> preflight r"
  shows "(outcome_of (gateway d now r st) = Respond StatusTooManyRequests ''Too Many Requests'')
     = (\<not> admitted now r st)"
proof (cases "admitted now r st")
  case False
  with assms show ?thesis by (simp add: gateway_rejected outcome_of_def)
next
  case True
  have "outcome_of (gateway d now r st) \<noteq> Respond StatusTooManyRequests ''Too Many Requests''"
  proof (cases "filesystem d r
      \<lparr>resp_status = StatusOK, hits = st(req_ip r \<mapsto> hit now (st (req_ip r)))\<rparr>")
    case (Pair s c')
    show ?thesis
    proof (cases s)
      case Next
      with Pair have "filesystem d r
          \<lparr>resp_status = StatusOK, hits = st(req_ip r \<mapsto> hit now (st (req_ip r)))\<rparr> = (Next, c')"
        by simp
      from filesystem_next [OF this] have c': "resp_status c' \<noteq> StatusTooManyRequests"
        by (simp add: status_codes split: if_splits)
      from api_not_429 [OF c', of app d now r False "''Too Many Requests''"]
      show ?thesis using assms True Pair Next
        by (auto simp add: gateway_admitted outcome_of_def split: prod.splits)
    next
      case (Reply out)
      with Pair filesystem_reply_not_429 [of d r _ out c' "''Too Many Requests''"]
      show ?thesis using assms True
        by (simp add: gateway_admitted outcome_of_def)
    qed
  qed
  with True show ?thesis by simp
qed

lemma gateway_reaches_filesystem:
  assumes "length (req_body r) \<le> BodyLimit" "\<not> preflight r"
  shows "(Filesystem \<in> set (trace_of (gateway d now r st))) = admitted now r st"
  using assms by (simp add: gateway_cases trace_of_def split: prod.splits step.splits)

lemma requests_of_Cons:
  "requests_of k ((t, r) # evs) =
     (if req_ip r = k \<and> reaches_limiter r then 1 else 0) + requests_of k evs"
  by (simp add: requests_of_def)

lemma listen_Cons:
  "listen d ((t, r) # evs) st =
     (trace_of (gateway d t r st), outcome_of (gateway d t r st))
       # listen d evs (storage_of (gateway d t r st))"
  by (simp add: trace_of_def outcome_of_def storage_of_def split: prod.splits)

declare listen.simps(2) [simp del]

text \<open>A request answered before the limiter leaves the storage as it is.\<close>

lemma gateway_storage_unreached:
  "\<not> reaches_limiter r \<Longrightarrow> storage_of (gateway d now r st) = st"
  by (cases "BodyLimit < length (req_body r)")
    (simp_all add: reaches_limiter_def storage_of_def gateway_too_large gateway_preflight)

lemma listen_preflight:
  "n < length evs \<Longrightarrow> preflight (snd (evs ! n)) \<Longrightarrow>
   length (req_body (snd (evs ! n))) \<le> BodyLimit \<Longrightarrow>
   listen d evs st ! n = ([Helmet, Cors], Respond StatusNoContent [])"
proof (induction evs arbitrary: n st)
  case Nil
  then show ?case by simp
next
  case (Cons ev evs)
  obtain t r where ev: "ev = (t, r)" by (cases ev)
  show ?case
  proof (cases n)
    case 0
    with Cons.prems ev show ?thesis
      by (simp add: listen_Cons gateway_preflight trace_of_def outcome_of_def)
  next
    case (Suc m)
    with Cons.prems ev Cons.IH [of m] show ?thesis
      by (simp add: listen_Cons)
  qed
qed

lemma hit_in_window:
  "t < exp i \<Longrightarrow> hit t (Some i) = i\<lparr>currHits := currHits i + 1\<rparr>"
  by (simp add: hit_def)

lemma hit_fresh:
  "(case e of None \<Rightarrow> True | Some i \<Rightarrow> exp i \<le> t) \<Longrightarrow>
   hit t e = \<lparr>currHits = 1, exp = t + limiter_Expiration\<rparr>"
  by (simp add: hit_def split: option.splits)

text \<open>
  Inside a window of client \<open>k\<close>: the answer to a request of \<open>k\<close> that reaches the
  limiter depends on the hits counted so far and on nothing else. Nothing is assumed of
  the requests of other clients, nor of requests answered before the limiter.
\<close>

lemma listen_window:
  assumes "st k = Some i"
    and "\<forall>(t, r) \<in> set evs. req_ip r = k \<and> reaches_limiter r \<longrightarrow> t < exp i"
    and "n < length evs"
    and "req_ip (snd (evs ! n)) = k"
    and "reaches_limiter (snd (evs ! n))"
  shows "(snd (listen d evs st ! n) = Respond StatusTooManyRequests ''Too Many Requests'')
      = (limiter_Max < currHits i + requests_of k (take (Suc n) evs))
    \<and> (Filesystem \<in> set (fst (listen d evs st ! n)))
      = (currHits i + requests_of k (take (Suc n) evs) \<le> limiter_Max)"
  using assms
proof (induction evs arbitrary: st i n)
  case Nil
  then show ?case by simp
next
  case (Cons ev evs)
  obtain t r where ev: "ev = (t, r)" by (cases ev)
  let ?st = "storage_of (gateway d t r st)"
  show ?case
  proof (cases "reaches_limiter r")
    case unreached: False
    show ?thesis
    proof (cases n)
      case 0
      with Cons.prems(5) ev unreached show ?thesis by simp
    next
      case (Suc m)
      have a: "?st k = Some i"
        using unreached Cons.prems(1) by (simp add: gateway_storage_unreached)
      have b: "\<forall>(t, r) \<in> set evs. req_ip r = k \<and> reaches_limiter r \<longrightarrow> t < exp i"
        using Cons.prems(2) by simp
      have c: "m < length evs" "req_ip (snd (evs ! m)) = k" "reaches_limiter (snd (evs ! m))"
        using Cons.prems(3,4,5) Suc by simp_all
      from Cons.IH [where st = "?st" and i = i and n = m, OF a b c] show ?thesis
        using Suc ev unreached by (simp add: listen_Cons requests_of_Cons)
    qed
  next
    case reached: True
    then have reach: "length (req_body r) \<le> BodyLimit" "\<not> preflight r"
      by (simp_all add: reaches_limiter_def)
    have st': "?st = st(req_ip r \<mapsto> hit t (st (req_ip r)))"
      using reach by (rule gateway_storage)
    show ?thesis
    proof (cases "req_ip r = k")
      case True
      from Cons.prems(2) ev True reached have lt: "t < exp i" by auto
      have hk: "hit t (st (req_ip r)) = i\<lparr>currHits := currHits i + 1\<rparr>"
        using True Cons.prems(1) lt by (simp add: hit_in_window)
      have adm: "admitted t r st = (currHits i + 1 \<le> limiter_Max)"
        by (simp add: admitted_def hk)
      show ?thesis
      proof (cases n)
        case 0
        then show ?thesis
          using ev True reached adm reach gateway_429 [of r d t st]
            gateway_reaches_filesystem [of r d t st]
          by (auto simp add: listen_Cons requests_of_Cons requests_of_def)
      next
        case (Suc m)
        have a: "?st k = Some (i\<lparr>currHits := currHits i + 1\<rparr>)"
          using st' True hk by simp
        have b: "\<forall>(t, r) \<in> set evs. req_ip r = k \<and> reaches_limiter r \<longrightarrow>
            t < exp (i\<lparr>currHits := currHits i + 1\<rparr>)"
          using Cons.prems(2) by simp
        have c: "m < length evs" "req_ip (snd (evs ! m)) = k"
          "reaches_limiter (snd (evs ! m))"
          using Cons.prems(3,4,5) Suc by simp_all
        from Cons.IH [where st = "?st" and i = "i\<lparr>currHits := currHits i + 1\<rparr>" and n = m,
            OF a b c] show ?thesis
          using Suc ev True reached by (simp add: listen_Cons requests_of_Cons)
      qed
    next
      case False
      show ?thesis
      proof (cases n)
        case 0
        with Cons.prems(4) ev False show ?thesis by simp
      next
        case (Suc m)
        have a: "?st k = Some i"
          using st' False Cons.prems(1) by simp
        have b: "\<forall>(t, r) \<in> set evs. req_ip r = k \<and> reaches_limiter r \<longrightarrow> t < exp i"
          using Cons.prems(2) by simp
        have c: "m < length evs" "req_ip (snd (evs ! m)) = k"
          "reaches_limiter (snd (evs ! m))"
          using Cons.prems(3,4,5) Suc by simp_all
        from Cons.IH [where st = "?st" and i = i and n = m, OF a b c] show ?thesis
          using Suc ev False by (simp add: listen_Cons requests_of_Cons)
      qed
    qed
  qed
qed

lemma listen_first_window:
  assumes "evs = (t0, r0) # rest"
    and "req_ip r0 = k"
    and "reaches_limiter r0"
    and "case st k of None \<Rightarrow> True | Some i \<Rightarrow> exp i \<le> t0"
    and "\<forall>(t, r) \<in> set rest. req_ip r = k \<and> reaches_limiter r \<longrightarrow>
        t < t0 + limiter_Expiration"
    and "n < length evs"
    and "req_ip (snd (evs ! n)) = k"
    and "reaches_limiter (snd (evs ! n))"
  shows "(snd (listen d evs st ! n) = Respond StatusTooManyRequests ''Too Many Requests'')
      = (limiter_Max < requests_of k (take (Suc n) evs))
    \<and> (Filesystem \<in> set (fst (listen d evs st ! n)))
      = (requests_of k (take (Suc n) evs) \<le> limiter_Max)"
proof -
  from assms(3) have reach: "length (req_body r0) \<le> BodyLimit" "\<not> preflight r0"
    by (simp_all add: reaches_limiter_def)
  let ?i = "\<lparr>currHits = 1, exp = t0 + limiter_Expiration\<rparr>"
  let ?st = "storage_of (gateway d t0 r0 st)"
  have hk: "hit t0 (st (req_ip r0)) = ?i"
    using assms(2,4) by (simp add: hit_fresh)
  have st': "?st k = Some ?i"
    using gateway_storage [OF reach, of d t0 st] hk assms(2) by simp
  show ?thesis
  proof (cases n)
    case 0
    have "admitted t0 r0 st"
      by (simp add: admitted_def hk limiter_Max_def)
    then show ?thesis
      using 0 assms(1,2,3) reach gateway_429 [of r0 d t0 st]
        gateway_reaches_filesystem [of r0 d t0 st]
      by (simp add: listen_Cons requests_of_Cons requests_of_def limiter_Max_def)
  next
    case (Suc m)
    have b: "\<forall>(t, r) \<in> set rest. req_ip r = k \<and> reaches_limiter r \<longrightarrow> t < exp ?i"
      using assms(5) by simp
    have c: "m < length rest" "req_ip (snd (rest ! m)) = k" "reaches_limiter (snd (rest ! m))"
      using assms(1,6,7,8) Suc by simp_all
    from listen_window [where st = "?st" and i = "?i" and n = m and d = d,
        OF st' b c] show ?thesis
      using Suc assms(1,2,3) by (simp add: listen_Cons requests_of_Cons)
  qed
qed

subsection \<open>Evaluating the sample deployment\<close>

lemmas sample_eval =
  sample_def sample_dist_def sample_request_def preflight_def admitted_def hit_def
  limiter_Max_def limiter_Expiration_def BodyLimit_def static_miss_def fs_name_def HasPrefix_def
  TrimRight_def detectionPath_def ToLower_def under_v1_def valid_key_def Get_header_def
  Params_def match_wa match_mail

lemma burst_facts:
  "\<forall>(t, r) \<in> set (tl burst). req_ip r = ''10.0.0.1'' \<and> reaches_limiter r \<longrightarrow> t < 0 + 60"
  "length burst = 53"
  "reaches_limiter (sample_request GET ''/'' [])"
  "req_ip (snd (burst ! 51)) = ''10.0.0.1''"
  "req_ip (snd (burst ! 52)) = ''10.0.0.1''"
  "reaches_limiter (snd (burst ! 51))"
  "reaches_limiter (snd (burst ! 52))"
  "requests_of ''10.0.0.1'' (take (Suc 51) burst) = 50"
  "requests_of ''10.0.0.1'' (take (Suc 52) burst) = 51"
  by (simp_all add: burst_def other_client_def preflight_request_def sample_request_def
      preflight_def Get_header_def reaches_limiter_def BodyLimit_def requests_of_def)

lemma polite_facts:
  "length polite = 51"
  "polite ! 50 = (1, preflight_request)"
  "preflight preflight_request"
  "length (req_body preflight_request) \<le> BodyLimit"
  "req_ip preflight_request = ''10.0.0.1''"
  by (simp_all add: polite_def nth_append preflight_request_def sample_request_def
      preflight_def Get_header_def BodyLimit_def)

section \<open>The claims\<close>

text \<open>
  C1. As stated (every request under \<^verbatim>\<open>/v1\<close> without the right key is answered 401)
  the claim does not hold: the limiter, the CORS middleware and the filesystem handler
  stand before the group and may answer first. What holds: a request whose
  \<^verbatim>\<open>X-RIZ-KEY\<close> is missing, empty or different from the configured secret (so every
  key, when the secret is empty) never reaches a forwarding handler and never ends in a
  call of the proxy; and if it is under \<^verbatim>\<open>/v1\<close> and the earlier stages pass it on (body
  within the limit, no preflight, admitted by the limiter, not answered from the tree),
  it is answered 401 with the JSON error body by \<^verbatim>\<open>authMiddleware\<close>.
\<close>

theorem C1_unauthorized:
  assumes "Get_header r ''X-RIZ-KEY'' = [] \<or> Get_header r ''X-RIZ-KEY'' \<noteq> RIZ_SECRET_KEY d"
  shows "ForwardWA \<notin> set (trace_of (gateway d now r st))
    \<and> ForwardMail \<notin> set (trace_of (gateway d now r st))
    \<and> (\<forall>fw. outcome_of (gateway d now r st) \<noteq> ProxyDo fw)
    \<and> (under_v1 r \<and> length (req_body r) \<le> 2 * 1024 * 1024 \<and> \<not> preflight r
         \<and> admitted now r st \<and> static_miss d r \<longrightarrow>
       outcome_of (gateway d now r st) = Respond 401 denied_json
       \<and> trace_of (gateway d now r st) =
           [Helmet, Cors, Logger, Limiter, Filesystem, AuthMiddleware])"
proof -
  from assms have nv: "\<not> valid_key d r"
    by (auto simp add: valid_key_def)
  have "outcome_of (gateway d now r st) = Respond 401 denied_json
       \<and> trace_of (gateway d now r st) =
           [Helmet, Cors, Logger, Limiter, Filesystem, AuthMiddleware]"
    if "under_v1 r" "length (req_body r) \<le> 2 * 1024 * 1024" "\<not> preflight r"
      "admitted now r st" "static_miss d r"
    using that nv
    by (simp add: gateway_api BodyLimit_def next_route_api outcome_of_def trace_of_def
        StatusUnauthorized_def)
  with gateway_no_forward [OF nv] show ?thesis
    by blast
qed

theorem C1_unauthorized_witness:
  "outcome_of (gateway sample 0 (sample_request POST ''/v1/wa/send'' ''guess'') Map.empty)
     = Respond 401 denied_json
   \<and> ForwardWA \<notin> set (trace_of
        (gateway sample 0 (sample_request POST ''/v1/wa/send'' ''guess'') Map.empty))
   \<and> outcome_of (gateway (sample\<lparr>RIZ_SECRET_KEY := []\<rparr>) 0
        (sample_request POST ''/v1/mail/send'' []) Map.empty)
     = Respond 401 denied_json"
  using C1_unauthorized [of "sample_request POST ''/v1/wa/send'' ''guess''" sample 0 Map.empty]
    C1_unauthorized [of "sample_request POST ''/v1/mail/send'' []"
      "sample\<lparr>RIZ_SECRET_KEY := []\<rparr>" 0 Map.empty]
  by (simp add: sample_eval)

text \<open>
  The 51st request of one client within a minute, to \<^verbatim>\<open>/v1/wa/send\<close> and without a
  key, is answered 429 by the limiter, not 401.
\<close>

theorem C1_rate_limited_counterexample:
  "snd (listen sample flood Map.empty ! 50) = Respond 429 ''Too Many Requests''
   \<and> under_v1 (snd (flood ! 50))
   \<and> Get_header (snd (flood ! 50)) ''X-RIZ-KEY'' = []"
proof -
  have "(snd (listen sample flood Map.empty ! 50)
          = Respond StatusTooManyRequests ''Too Many Requests'')
      = (limiter_Max < requests_of ''10.0.0.1'' (take (Suc 50) flood))"
    using listen_first_window [of flood 0 "sample_request POST ''/v1/wa/send'' []"
        "tl flood" "''10.0.0.1''" Map.empty 50 sample]
    by (simp add: flood_def sample_request_def preflight_def Get_header_def reaches_limiter_def
        BodyLimit_def limiter_Expiration_def)
  moreover have "requests_of ''10.0.0.1'' (take (Suc 50) flood) = 51"
    by (simp add: flood_def sample_request_def requests_of_def preflight_def Get_header_def
        reaches_limiter_def BodyLimit_def)
  ultimately show ?thesis
    by (simp add: limiter_Max_def StatusTooManyRequests_def flood_def sample_eval)
qed

text \<open>
  C2. As stated (the 51st request of a client within the window is answered 429) the
  claim does not hold: a request that the CORS middleware answers as a preflight, or
  whose body is over the limit, never reaches the limiter; it is not counted and it is
  not answered 429. What holds, for the requests that reach the limiter: the window of
  a client \<open>k\<close> opens with its first such request, at \<open>t0\<close> (no entry for \<open>k\<close>, or an
  expired one); with the later ones of \<open>k\<close> arriving before \<open>t0 + 60\<close>, a request of
  \<open>k\<close> that reaches the limiter is answered 429 exactly when it is the 51st or a later
  one of them, and it is passed on to the next handler exactly when it is among the
  first 50. Nothing is assumed of the requests of other clients, which may arrive at any
  time in between: they do not count.
\<close>

theorem C2_rate_window:
  assumes "evs = (t0, r0) # rest"
    and "req_ip r0 = k"
    and "reaches_limiter r0"
    and "case st k of None \<Rightarrow> True | Some i \<Rightarrow> exp i \<le> t0"
    and "\<forall>(t, r) \<in> set rest. req_ip r = k \<and> reaches_limiter r \<longrightarrow> t < t0 + 60"
    and "n < length evs"
    and "req_ip (snd (evs ! n)) = k"
    and "reaches_limiter (snd (evs ! n))"
  shows "((snd (listen d evs st ! n) = Respond 429 ''Too Many Requests'')
      = (50 < requests_of k (take (Suc n) evs)))
    \<and> ((Filesystem \<in> set (fst (listen d evs st ! n)))
      = (requests_of k (take (Suc n) evs) \<le> 50))"
  using listen_first_window [of evs t0 r0 rest k st n d] assms
  by (simp add: limiter_Expiration_def limiter_Max_def StatusTooManyRequests_def)

theorem C2_rate_window_witness:
  "Filesystem \<in> set (fst (listen sample burst Map.empty ! 51))
   \<and> snd (listen sample burst Map.empty ! 51) \<noteq> Respond 429 ''Too Many Requests''
   \<and> snd (listen sample burst Map.empty ! 52) = Respond 429 ''Too Many Requests''"
  using C2_rate_window [of burst 0 "sample_request GET ''/'' []" "tl burst" "''10.0.0.1''"
      Map.empty 51 sample]
    C2_rate_window [of burst 0 "sample_request GET ''/'' []" "tl burst" "''10.0.0.1''"
      Map.empty 52 sample]
    burst_facts
  by (simp add: burst_def sample_request_def)

text \<open>
  The 51st request of one client within two seconds, a preflight, is answered 204 by
  the CORS middleware, not 429.
\<close>

theorem C2_preflight_counterexample:
  "snd (listen sample polite Map.empty ! 50) = Respond 204 []
   \<and> length polite = 51
   \<and> set (map (req_ip \<circ> snd) polite) = {''10.0.0.1''}
   \<and> set (map fst polite) = {0, 1}"
proof -
  have "listen sample polite Map.empty ! 50 = ([Helmet, Cors], Respond StatusNoContent [])"
    using listen_preflight [of 50 polite sample Map.empty] polite_facts
    by simp
  moreover have "set (map (req_ip \<circ> snd) polite) = {''10.0.0.1''}"
    "set (map fst polite) = {0, 1}"
    by (auto simp add: polite_def preflight_request_def sample_request_def)
  ultimately show ?thesis
    using polite_facts(1) by (simp add: StatusNoContent_def)
qed

text \<open>
  C3. As stated the claim does not hold: the target handed to the proxy is built from
  the base URL and the wildcard parameter only, so the query string of the request is
  not forwarded. What holds: a request to \<^verbatim>\<open>/v1/wa/foo/bar\<close> with a valid key that the
  earlier stages pass on is forwarded to \<^verbatim>\<open>WA_SERVICE_URL\<close> followed by
  \<^verbatim>\<open>/foo/bar\<close>, with the method and the body of the request, whatever its query
  string.
\<close>

theorem C3_forward_target:
  assumes "req_path r = ''/v1/wa/foo/bar''"
    and "valid_key d r"
    and "length (req_body r) \<le> 2 * 1024 * 1024"
    and "\<not> preflight r"
    and "admitted now r st"
    and "static_miss d r"
  shows "outcome_of (gateway d now r st) =
      ProxyDo \<lparr>fwd_method = req_method r, fwd_url = WA_SERVICE_URL d @ ''/foo/bar'',
        fwd_body = req_body r\<rparr>
    \<and> trace_of (gateway d now r st) =
      [Helmet, Cors, Logger, Limiter, Filesystem, AuthMiddleware, ForwardWA]"
proof -
  have "Params (app_All ''/v1/wa/*'' ForwardWA) r = Some ''foo/bar''"
    using assms(1)
    by (simp add: Params_def match_wa detectionPath_def ToLower_def TrimRight_def
        HasPrefix_def)
  with assms show ?thesis
    by (simp add: gateway_api BodyLimit_def next_route_api outcome_of_def trace_of_def
        proxy_Do_def)
qed

theorem C3_forward_target_witness:
  "outcome_of (gateway sample 0 (sample_request PUT ''/v1/wa/foo/bar'' ''s3cret'') Map.empty) =
      ProxyDo \<lparr>fwd_method = PUT, fwd_url = ''http://wa:3000/foo/bar'',
        fwd_body = ''hello''\<rparr>"
  using C3_forward_target [of "sample_request PUT ''/v1/wa/foo/bar'' ''s3cret''" sample 0
      Map.empty]
  by (simp add: sample_eval)

text \<open>
  A request for \<^verbatim>\<open>/v1/wa/foo/bar?x=1\<close> is forwarded to a URL without a query string.
\<close>

theorem C3_query_dropped_counterexample:
  "(case outcome_of
      (gateway sample 0 (sample_request GET ''/v1/wa/foo/bar'' ''s3cret'') Map.empty) of
      ProxyDo fw \<Rightarrow>
        fwd_url fw = ''http://wa:3000/foo/bar''
        \<and> url_query (fwd_url fw) = []
        \<and> req_query (sample_request GET ''/v1/wa/foo/bar'' ''s3cret'') = ''x=1''
    | _ \<Rightarrow> False)"
proof -
  have "outcome_of
      (gateway sample 0 (sample_request GET ''/v1/wa/foo/bar'' ''s3cret'') Map.empty) =
      proxy_Do (sample_request GET ''/v1/wa/foo/bar'' ''s3cret'') ''http://wa:3000/foo/bar''"
    by (simp add: gateway_api next_route_api outcome_of_def sample_eval)
  then show ?thesis
    by (simp add: proxy_Do_def url_query_def sample_request_def)
qed

text \<open>
  C4. As stated the claim does not hold: the handler does not look at the base URL.
  With \<^verbatim>\<open>WA_SERVICE_URL\<close> unset or empty, a request that matches \<^verbatim>\<open>/v1/wa/*\<close> with a
  valid key and that the earlier stages pass on is handed to the proxy with the
  relative target made of a slash and the wildcard parameter.
\<close>

theorem C4_empty_base_is_forwarded:
  assumes "WA_SERVICE_URL d = []"
    and "Params (app_All ''/v1/wa/*'' ForwardWA) r = Some star"
    and "valid_key d r"
    and "length (req_body r) \<le> 2 * 1024 * 1024"
    and "\<not> preflight r"
    and "admitted now r st"
    and "static_miss d r"
  shows "outcome_of (gateway d now r st) =
      ProxyDo \<lparr>fwd_method = req_method r, fwd_url = ''/'' @ star,
        fwd_body = req_body r\<rparr>
    \<and> trace_of (gateway d now r st) =
      [Helmet, Cors, Logger, Limiter, Filesystem, AuthMiddleware, ForwardWA]"
  using assms
  by (simp add: gateway_api BodyLimit_def next_route_api outcome_of_def trace_of_def
      proxy_Do_def)

theorem C4_empty_base_witness:
  "outcome_of (gateway (sample\<lparr>WA_SERVICE_URL := []\<rparr>) 0
      (sample_request DELETE ''/v1/wa/session/7'' ''s3cret'') Map.empty) =
      ProxyDo \<lparr>fwd_method = DELETE, fwd_url = ''/session/7'',
        fwd_body = ''hello''\<rparr>"
  using C4_empty_base_is_forwarded [of "sample\<lparr>WA_SERVICE_URL := []\<rparr>"
      "sample_request DELETE ''/v1/wa/session/7'' ''s3cret''" "''session/7''" 0 Map.empty]
  by (simp add: sample_eval)

text \<open>
  With an empty \<^verbatim>\<open>WA_SERVICE_URL\<close>, \<^verbatim>\<open>POST /v1/wa/send\<close> ends in a call of the proxy
  with the target \<^verbatim>\<open>/send\<close>, not in a configuration error.
\<close>

theorem C4_no_configuration_error_counterexample:
  "gateway (sample\<lparr>WA_SERVICE_URL := []\<rparr>) 0
      (sample_request POST ''/v1/wa/send'' ''s3cret'') Map.empty =
     ([Helmet, Cors, Logger, Limiter, Filesystem, AuthMiddleware, ForwardWA],
      ProxyDo \<lparr>fwd_method = POST, fwd_url = ''/send'',
        fwd_body = ''hello''\<rparr>,
      [''10.0.0.1'' \<mapsto> \<lparr>currHits = 1, exp = 60\<rparr>])"
  by (simp add: gateway_api next_route_api proxy_Do_def sample_eval)

text \<open>
  C5. As stated the claim does not hold: the filesystem middleware is configured
  without \<^verbatim>\<open>NotFoundFile\<close>, so there is no fallback to the index document. A request
  whose path names nothing in the tree, is not under \<^verbatim>\<open>/v1\<close> and is not \<^verbatim>\<open>/status\<close>,
  and that reaches the filesystem handler, runs out of routes and is answered 404.
\<close>

theorem C5_unknown_path_not_found:
  assumes "dist d (fs_name (req_path r)) = ErrNotExist"
    and "\<not> under_v1 r"
    and "detectionPath (req_path r) \<noteq> ''/status''"
    and "length (req_body r) \<le> 2 * 1024 * 1024"
    and "\<not> preflight r"
    and "admitted now r st"
  shows "outcome_of (gateway d now r st) = Error 404
    \<and> trace_of (gateway d now r st) = [Helmet, Cors, Logger, Limiter, Filesystem]"
proof -
  have a: "Params (app_All ''/v1/wa/*'' ForwardWA) r = None"
    using assms(2) wa_under_v1 wa_exact_under_v1
    by (auto simp add: Params_def match_wa under_v1_def)
  have b: "Params (app_All ''/v1/mail/*'' ForwardMail) r = None"
    using assms(2) mail_under_v1 wa_exact_under_v1
    by (auto simp add: Params_def match_mail under_v1_def)
  have c: "static_miss d r"
    using assms(1) by (simp add: static_miss_def)
  from a b c assms show ?thesis
    by (simp add: gateway_api BodyLimit_def next_route_api outcome_of_def trace_of_def
        methodExist_app StatusNotFound_def)
qed

theorem C5_unknown_path_witness:
  "outcome_of (gateway sample 0 (sample_request GET ''/assets/app.js'' []) Map.empty)
     = Error 404"
  using C5_unknown_path_not_found [of sample "sample_request GET ''/assets/app.js'' []" 0
      Map.empty]
  by (simp add: sample_eval)

text \<open>
  \<^verbatim>\<open>GET /dashboard/settings\<close> on a tree that has \<^verbatim>\<open>index.html\<close> is answered 404.
\<close>

theorem C5_no_index_fallback_counterexample:
  "gateway sample 0 (sample_request GET ''/dashboard/settings'' []) Map.empty =
     ([Helmet, Cors, Logger, Limiter, Filesystem], Error 404,
      [''10.0.0.1'' \<mapsto> \<lparr>currHits = 1, exp = 60\<rparr>])
   \<and> dist sample ''/index.html'' = IsFile ''<html></html>''"
  by (simp add: gateway_api next_route_api methodExist_app StatusNotFound_def sample_eval)

text \<open>
  C6. \<^verbatim>\<open>GET /status\<close> from a client within its rate limit, on a tree without an
  entry of that name: every middleware runs, the filesystem handler misses, sets the
  status 404 and goes on, and the status handler writes its JSON body without setting
  the status. The response carries the body of the claim with the status 404, not 200.
  Neither the authenticator nor a forwarding handler runs, and the limiter counts the
  request.
\<close>

theorem C6_status_after_static_miss:
  "gateway sample 0 (sample_request GET ''/status'' []) Map.empty =
     ([Helmet, Cors, Logger, Limiter, Filesystem, StatusHandler], Respond 404 status_json,
      [''10.0.0.1'' \<mapsto> \<lparr>currHits = 1, exp = 60\<rparr>])"
  using status_after_miss [of "sample_request GET ''/status'' []" sample 0 Map.empty]
  by (simp add: StatusNotFound_def sample_eval)

text \<open>
  C7. A request that the rate limiter rejects is answered at once with 429: the
  handlers that ran are the four up to the limiter, so neither the filesystem handler,
  nor the authenticator, nor a forwarding handler, nor the status handler runs for it.
  A request is rejected when it reaches the limiter (its body is within the limit and
  the CORS middleware has not answered it) and its hit is not admitted.
\<close>

theorem C7_rejected_skips_later_stages:
  "length (req_body r) \<le> 2 * 1024 * 1024 \<Longrightarrow> \<not> preflight r \<Longrightarrow> \<not> admitted now r st \<Longrightarrow>
   outcome_of (gateway d now r st) = Respond 429 ''Too Many Requests''
   \<and> trace_of (gateway d now r st) = [Helmet, Cors, Logger, Limiter]"
  using gateway_rejected [of r now st d]
  by (simp add: BodyLimit_def StatusTooManyRequests_def outcome_of_def trace_of_def)

theorem C7_rejected_witness:
  "outcome_of (gateway sample 30 (sample_request GET ''/status'' [])
      [''10.0.0.1'' \<mapsto> \<lparr>currHits = 50, exp = 60\<rparr>]) = Respond 429 ''Too Many Requests''
   \<and> trace_of (gateway sample 30 (sample_request GET ''/status'' [])
      [''10.0.0.1'' \<mapsto> \<lparr>currHits = 50, exp = 60\<rparr>]) = [Helmet, Cors, Logger, Limiter]"
  using C7_rejected_skips_later_stages [of "sample_request GET ''/status'' []" 30
      "[''10.0.0.1'' \<mapsto> \<lparr>currHits = 50, exp = 60\<rparr>]" sample]
  by (simp add: sample_request_def preflight_def admitted_def hit_def limiter_Max_def)

text \<open>
  C8. A request whose body is longer than 2 MiB is refused with 413 before any handler
  of the stack runs: no handler is in the trace and the limiter's storage is untouched.
\<close>

theorem C8_body_limit:
  "2 * 1024 * 1024 < length (req_body r) \<Longrightarrow> gateway d now r st = ([], Error 413, st)"
  using gateway_too_large [of r d now st]
  by (simp add: BodyLimit_def StatusRequestEntityTooLarge_def)

theorem C8_body_limit_witness:
  "gateway sample 0
     ((sample_request POST ''/v1/wa/send'' ''s3cret'')\<lparr>req_body := replicate 2097153 (CHR ''a'')\<rparr>)
     Map.empty = ([], Error 413, Map.empty)"
  using C8_body_limit [of "(sample_request POST ''/v1/wa/send'' ''s3cret'')
      \<lparr>req_body := replicate 2097153 (CHR ''a'')\<rparr>" sample 0 Map.empty]
  by simp

text \<open>
  C9. As stated (for every admitted request) the claim does not hold: the filesystem
  handler serves \<^verbatim>\<open>GET\<close> and \<^verbatim>\<open>HEAD\<close> only and passes every other method on to the
  routes. What holds: for every request that the limiter admits, the filesystem handler
  runs fifth, before any handler of a route; and an admitted \<^verbatim>\<open>GET\<close> or \<^verbatim>\<open>HEAD\<close>
  request whose path names a file of the tree, be it under \<^verbatim>\<open>/v1\<close> or \<^verbatim>\<open>/status\<close>, is
  answered 200 with the file (without a body for \<^verbatim>\<open>HEAD\<close>) by the filesystem handler,
  and neither the authenticator nor a route handler runs.
\<close>

theorem C9_static_before_routes:
  "(length (req_body r) \<le> 2 * 1024 * 1024 \<and> \<not> preflight r \<and> admitted now r st \<longrightarrow>
      take 5 (trace_of (gateway d now r st)) = [Helmet, Cors, Logger, Limiter, Filesystem])
   \<and> ((req_method r = GET \<or> req_method r = HEAD)
        \<and> dist d (fs_name (req_path r)) = IsFile content
        \<and> length (req_body r) \<le> 2 * 1024 * 1024 \<and> admitted now r st \<longrightarrow>
      outcome_of (gateway d now r st)
        = Respond 200 (if req_method r = GET then content else [])
      \<and> trace_of (gateway d now r st) = [Helmet, Cors, Logger, Limiter, Filesystem])"
proof -
  have first: "take 5 (trace_of (gateway d now r st)) = [Helmet, Cors, Logger, Limiter, Filesystem]"
    if "length (req_body r) \<le> 2 * 1024 * 1024" "\<not> preflight r" "admitted now r st"
    using that
    by (simp add: gateway_cases BodyLimit_def trace_of_def split: prod.splits step.splits)
  have served: "outcome_of (gateway d now r st)
        = Respond 200 (if req_method r = GET then content else [])
      \<and> trace_of (gateway d now r st) = [Helmet, Cors, Logger, Limiter, Filesystem]"
    if m: "req_method r = GET \<or> req_method r = HEAD"
      and f: "dist d (fs_name (req_path r)) = IsFile content"
      and b: "length (req_body r) \<le> 2 * 1024 * 1024"
      and a: "admitted now r st"
  proof -
    from m have "\<not> preflight r"
      by (auto simp add: preflight_def)
    with m f b a show ?thesis
      by (simp add: gateway_cases BodyLimit_def filesystem_file serve_def outcome_of_def
          trace_of_def StatusOK_def)
  qed
  from first served show ?thesis
    by blast
qed

theorem C9_static_before_routes_witness:
  "outcome_of (gateway shadow 0 (sample_request GET ''/v1/wa/ping'' []) Map.empty)
     = Respond 200 ''pong''
   \<and> trace_of (gateway shadow 0 (sample_request GET ''/status'' []) Map.empty)
     = [Helmet, Cors, Logger, Limiter, Filesystem]
   \<and> take 5 (trace_of (gateway shadow 0 (sample_request POST ''/v1/wa/ping'' []) Map.empty))
     = [Helmet, Cors, Logger, Limiter, Filesystem]"
  using C9_static_before_routes [of "sample_request GET ''/v1/wa/ping'' []" 0 Map.empty shadow
      "''pong''"]
    C9_static_before_routes [of "sample_request GET ''/status'' []" 0 Map.empty shadow
      "''pong''"]
    C9_static_before_routes [of "sample_request POST ''/v1/wa/ping'' []" 0 Map.empty shadow
      "''pong''"]
  by (simp add: shadow_def sample_eval)

text \<open>
  On a tree with a file \<^verbatim>\<open>v1/wa/ping\<close>, \<^verbatim>\<open>POST /v1/wa/ping\<close> without a key reaches
  the authenticator and is answered 401; the file is not served.
\<close>

theorem C9_other_methods_counterexample:
  "dist shadow (fs_name ''/v1/wa/ping'') = IsFile ''pong''
   \<and> gateway shadow 0 (sample_request POST ''/v1/wa/ping'' []) Map.empty =
     ([Helmet, Cors, Logger, Limiter, Filesystem, AuthMiddleware], Respond 401 denied_json,
      [''10.0.0.1'' \<mapsto> \<lparr>currHits = 1, exp = 60\<rparr>])"
  by (simp add: gateway_api next_route_api StatusUnauthorized_def shadow_def sample_eval)

text \<open>
  C10. For a request to \<^verbatim>\<open>/v1/wa/\<close> the wildcard parameter is empty. Whenever such a
  request ends in a call of the proxy, the target is \<^verbatim>\<open>WA_SERVICE_URL\<close> followed by a
  single slash, with the method and the body of the request; and it does end so, through
  the WhatsApp handler, when the key is valid and the earlier stages pass the request
  on. Likewise for \<^verbatim>\<open>/v1/mail/\<close>, \<^verbatim>\<open>MAIL_SERVICE_URL\<close> and the mail handler.
\<close>

theorem C10_empty_remainder:
  "(req_path r = ''/v1/wa/'' \<longrightarrow>
      (\<forall>fw. outcome_of (gateway d now r st) = ProxyDo fw \<longrightarrow>
         fw = \<lparr>fwd_method = req_method r, fwd_url = WA_SERVICE_URL d @ ''/'',
           fwd_body = req_body r\<rparr>)
      \<and> (valid_key d r \<and> length (req_body r) \<le> 2 * 1024 * 1024 \<and> \<not> preflight r
           \<and> admitted now r st \<and> static_miss d r \<longrightarrow>
         outcome_of (gateway d now r st) =
           ProxyDo \<lparr>fwd_method = req_method r, fwd_url = WA_SERVICE_URL d @ ''/'',
             fwd_body = req_body r\<rparr>
         \<and> trace_of (gateway d now r st) =
           [Helmet, Cors, Logger, Limiter, Filesystem, AuthMiddleware, ForwardWA]))
   \<and> (req_path r = ''/v1/mail/'' \<longrightarrow>
      (\<forall>fw. outcome_of (gateway d now r st) = ProxyDo fw \<longrightarrow>
         fw = \<lparr>fwd_method = req_method r, fwd_url = MAIL_SERVICE_URL d @ ''/'',
           fwd_body = req_body r\<rparr>)
      \<and> (valid_key d r \<and> length (req_body r) \<le> 2 * 1024 * 1024 \<and> \<not> preflight r
           \<and> admitted now r st \<and> static_miss d r \<longrightarrow>
         outcome_of (gateway d now r st) =
           ProxyDo \<lparr>fwd_method = req_method r, fwd_url = MAIL_SERVICE_URL d @ ''/'',
             fwd_body = req_body r\<rparr>
         \<and> trace_of (gateway d now r st) =
           [Helmet, Cors, Logger, Limiter, Filesystem, AuthMiddleware, ForwardMail]))"
proof -
  have wa: "Params (app_All ''/v1/wa/*'' ForwardWA) r = Some []"
    if "req_path r = ''/v1/wa/''"
    using that
    by (simp add: Params_def match_wa detectionPath_def ToLower_def TrimRight_def
        HasPrefix_def)
  have mail: "Params (app_All ''/v1/mail/*'' ForwardMail) r = Some []"
    "Params (app_All ''/v1/wa/*'' ForwardWA) r = None"
    if "req_path r = ''/v1/mail/''"
    using that
    by (simp_all add: Params_def match_wa match_mail detectionPath_def ToLower_def
        TrimRight_def HasPrefix_def)
  have any_wa: "fw = \<lparr>fwd_method = req_method r, fwd_url = WA_SERVICE_URL d @ ''/'',
      fwd_body = req_body r\<rparr>"
    if "req_path r = ''/v1/wa/''" "outcome_of (gateway d now r st) = ProxyDo fw" for fw
    using proxy_only_by_route [OF that(2)] wa [OF that(1)]
    by (auto simp add: proxy_Do_def)
  have any_mail: "fw = \<lparr>fwd_method = req_method r, fwd_url = MAIL_SERVICE_URL d @ ''/'',
      fwd_body = req_body r\<rparr>"
    if "req_path r = ''/v1/mail/''" "outcome_of (gateway d now r st) = ProxyDo fw" for fw
    using proxy_only_by_route [OF that(2)] mail [OF that(1)]
    by (auto simp add: proxy_Do_def)
  have run_wa: "outcome_of (gateway d now r st) =
        ProxyDo \<lparr>fwd_method = req_method r, fwd_url = WA_SERVICE_URL d @ ''/'',
          fwd_body = req_body r\<rparr>
      \<and> trace_of (gateway d now r st) =
        [Helmet, Cors, Logger, Limiter, Filesystem, AuthMiddleware, ForwardWA]"
    if "req_path r = ''/v1/wa/''" "valid_key d r" "length (req_body r) \<le> 2 * 1024 * 1024"
      "\<not> preflight r" "admitted now r st" "static_miss d r"
    using that wa
    by (simp add: gateway_api BodyLimit_def next_route_api outcome_of_def trace_of_def
        proxy_Do_def)
  have run_mail: "outcome_of (gateway d now r st) =
        ProxyDo \<lparr>fwd_method = req_method r, fwd_url = MAIL_SERVICE_URL d @ ''/'',
          fwd_body = req_body r\<rparr>
      \<and> trace_of (gateway d now r st) =
        [Helmet, Cors, Logger, Limiter, Filesystem, AuthMiddleware, ForwardMail]"
    if "req_path r = ''/v1/mail/''" "valid_key d r" "length (req_body r) \<le> 2 * 1024 * 1024"
      "\<not> preflight r" "admitted now r st" "static_miss d r"
    using that mail
    by (simp add: gateway_api BodyLimit_def next_route_api outcome_of_def trace_of_def
        proxy_Do_def)
  from any_wa any_mail run_wa run_mail show ?thesis
    by blast
qed

theorem C10_empty_remainder_witness:
  "outcome_of (gateway sample 0 (sample_request POST ''/v1/wa/'' ''s3cret'') Map.empty) =
     ProxyDo \<lparr>fwd_method = POST, fwd_url = ''http://wa:3000/'', fwd_body = ''hello''\<rparr>
   \<and> outcome_of (gateway sample 0 (sample_request POST ''/v1/mail/'' ''s3cret'') Map.empty) =
     ProxyDo \<lparr>fwd_method = POST, fwd_url = ''http://mail:3001/'', fwd_body = ''hello''\<rparr>"
proof -
  let ?wa = "sample_request POST ''/v1/wa/'' ''s3cret''"
  let ?mail = "sample_request POST ''/v1/mail/'' ''s3cret''"
  have pass_wa: "valid_key sample ?wa \<and> length (req_body ?wa) \<le> 2 * 1024 * 1024
      \<and> \<not> preflight ?wa \<and> admitted 0 ?wa Map.empty \<and> static_miss sample ?wa"
    by (simp add: sample_eval)
  have pass_mail: "valid_key sample ?mail \<and> length (req_body ?mail) \<le> 2 * 1024 * 1024
      \<and> \<not> preflight ?mail \<and> admitted 0 ?mail Map.empty \<and> static_miss sample ?mail"
    by (simp add: sample_eval)
  have paths: "req_path ?wa = ''/v1/wa/''" "req_path ?mail = ''/v1/mail/''"
    by (simp_all add: sample_request_def)
  have "outcome_of (gateway sample 0 ?wa Map.empty) =
      ProxyDo \<lparr>fwd_method = req_method ?wa, fwd_url = WA_SERVICE_URL sample @ ''/'',
        fwd_body = req_body ?wa\<rparr>"
    using C10_empty_remainder [of ?wa sample 0 Map.empty] paths(1) pass_wa by blast
  moreover have "outcome_of (gateway sample 0 ?mail Map.empty) =
      ProxyDo \<lparr>fwd_method = req_method ?mail, fwd_url = MAIL_SERVICE_URL sample @ ''/'',
        fwd_body = req_body ?mail\<rparr>"
    using C10_empty_remainder [of ?mail sample 0 Map.empty] paths(2) pass_mail by blast
  ultimately show ?thesis
    by (simp add: sample_def sample_request_def)
qed

end
